theory Spec2Isabelle
  imports Complex_Main
begin

section \<open>Python strings\<close>

text \<open>
  A Python \<open>str\<close> is a sequence of Unicode code points and \<open>len\<close> counts code points, so a
  string is modelled as the list of its code points. The keyword tables of \<open>bot.py\<close> are
  Russian; every non-ASCII literal is written out as its code points, with a transliteration
  beside it. \<open>S\<close> turns an ASCII literal into its code points.
\<close>

type_synonym pystr = "nat list"

definition S :: "string \<Rightarrow> pystr" where
  "S s = map of_char s"

text \<open>\<open>t.startswith(w)\<close>.\<close>

fun startswith :: "pystr \<Rightarrow> pystr \<Rightarrow> bool" where
  "startswith t [] = True"
| "startswith [] (c # w) = False"
| "startswith (a # t) (c # w) = (a = c \<and> startswith t w)"

text \<open>\<open>w in t\<close> for two strings: \<open>w\<close> occurs in \<open>t\<close> as a contiguous substring.\<close>

fun str_in :: "pystr \<Rightarrow> pystr \<Rightarrow> bool" where
  "str_in w [] = (w = [])"
| "str_in w (a # t) = (startswith (a # t) w \<or> str_in w t)"

text \<open>\<open>any(word in text for word in words)\<close>.\<close>

definition any_in :: "pystr list \<Rightarrow> pystr \<Rightarrow> bool" where
  "any_in words t = list_ex (\<lambda>word. str_in word t) words"

text \<open>\<open>sum(1 for word in words if word in text)\<close>.\<close>

definition count_in :: "pystr list \<Rightarrow> pystr \<Rightarrow> nat" where
  "count_in words t = length (filter (\<lambda>word. str_in word t) words)"

text \<open>
  \<open>str.lower()\<close> is Python's Unicode case mapping. Its table is not part of the repository, so
  every function that calls \<open>.lower()\<close> takes the mapping as its first argument \<open>lw\<close>, and the
  theorems hold for every mapping. \<open>lower_basic\<close> is the mapping on the two alphabets the keyword
  tables use (ASCII \<open>A-Z\<close>, Cyrillic U+0400..U+042F), every other code point unchanged; it
  is used where a concrete text is evaluated.
\<close>

definition lower_cp :: "nat \<Rightarrow> nat" where
  "lower_cp c =
     (if 65 \<le> c \<and> c \<le> 90 then c + 32
      else if 1040 \<le> c \<and> c \<le> 1071 then c + 32
      else if 1024 \<le> c \<and> c \<le> 1039 then c + 80
      else c)"

definition lower_basic :: "pystr \<Rightarrow> pystr" where
  "lower_basic s = map lower_cp s"

section \<open>Data model: \<open>Message\<close> and \<open>UserProfile\<close>\<close>

text \<open>
  The two dataclasses. Python floats are modelled as reals and Python ints as \<open>int\<close>;
  \<open>Optional[str]\<close> is an option. The field \<open>text\<close> is named \<open>msg_text\<close>, and the first two
  fields of \<open>UserProfile\<close> carry the prefix \<open>profile_\<close>, because record fields share one
  name space.
\<close>

record Message =
  user_id :: int
  username :: pystr
  msg_text :: pystr
  timestamp :: real
  chat_id :: int
  message_id :: int
  is_reply :: bool
  reply_to_user :: "pystr option"
  sentiment :: "pystr option"
  importance :: real
  has_image :: bool
  image_description :: "pystr option"

text \<open>
  \<open>personality_traits\<close> is a dict that \<open>_update_user_profile\<close> creates with exactly three keys
  and that nothing else writes: it is a record of the three values. The keys are the
  Russian words \<open>agressivnost'\<close>, \<open>druzhelyubnost'\<close> and \<open>yumor\<close>.
\<close>

record Traits =
  aggressiveness :: real
  friendliness :: real
  humor :: real

record UserProfile =
  profile_user_id :: int
  profile_username :: pystr
  personality_traits :: Traits
  interests :: "pystr list"
  interaction_count :: int
  last_seen :: real
  relationship_level :: pystr

text \<open>The four relationship levels: \<open>neznakomets\<close> (stranger), \<open>znakomyj\<close> (acquaintance),
  \<open>priyatel'\<close> (friend) and \<open>bratan\<close> (close friend).\<close>

definition neznakomets :: pystr where
  "neznakomets = [1085, 1077, 1079, 1085, 1072, 1082, 1086, 1084, 1077, 1094]"

definition znakomyj :: pystr where
  "znakomyj = [1079, 1085, 1072, 1082, 1086, 1084, 1099, 1081]"

definition priyatel :: pystr where
  "priyatel = [1087, 1088, 1080, 1103, 1090, 1077, 1083, 1100]"

definition bratan :: pystr where
  "bratan = [1073, 1088, 1072, 1090, 1072, 1085]"

section \<open>Importance and sentiment (\<open>AdvancedContextManager\<close>)\<close>

text \<open>\<open>['bot' (Cyrillic), 'bot', 'dimon' (Cyrillic)]\<close>, the inline list of
  \<open>_calculate_importance\<close>.\<close>

definition importance_mentions :: "pystr list" where
  "importance_mentions = [[1073, 1086, 1090], S ''bot'', [1076, 1080, 1084, 1086, 1085]]"

text \<open>\<open>tech_words\<close> of \<open>_calculate_importance\<close>: \<open>kod, programm, bag, server, baza, api\<close>.\<close>

definition importance_tech_words :: "pystr list" where
  "importance_tech_words =
     [[1082, 1086, 1076], [1087, 1088, 1086, 1075, 1088, 1072, 1084, 1084],
      [1073, 1072, 1075], [1089, 1077, 1088, 1074, 1077, 1088],
      [1073, 1072, 1079, 1072], S ''api'']"

definition calculate_importance :: "(pystr \<Rightarrow> pystr) \<Rightarrow> Message \<Rightarrow> real" where
  "calculate_importance lw message =
     (let importance0 = 0.5;
          importance1 = (if length (msg_text message) > 100 then importance0 + 0.2 else importance0);
          importance2 = (if str_in (S ''?'') (msg_text message) then importance1 + 0.1 else importance1);
          importance3 = (if any_in importance_mentions (lw (msg_text message))
                         then importance2 + 0.3 else importance2);
          importance4 = (if any_in importance_tech_words (lw (msg_text message))
                         then importance3 + 0.2 else importance3);
          importance5 = (if has_image message then importance4 + 0.3 else importance4)
      in min importance5 1.0)"

text \<open>\<open>positive_words\<close>: \<open>kruto, otlichno, spasibo, klass, zachyot, top, rzhaka, smeshno\<close>.\<close>

definition positive_words :: "pystr list" where
  "positive_words =
     [[1082, 1088, 1091, 1090, 1086], [1086, 1090, 1083, 1080, 1095, 1085, 1086],
      [1089, 1087, 1072, 1089, 1080, 1073, 1086], [1082, 1083, 1072, 1089, 1089],
      [1079, 1072, 1095, 1105, 1090], [1090, 1086, 1087],
      [1088, 1078, 1072, 1082, 1072], [1089, 1084, 1077, 1096, 1085, 1086]]"

text \<open>\<open>negative_words\<close>: six Russian words, the last three \<open>plokho, tupo, bred\<close>.\<close>

definition negative_words :: "pystr list" where
  "negative_words =
     [[1093, 1091, 1081, 1085, 1103], [1076, 1077, 1088, 1100, 1084, 1086],
      [1075, 1086, 1074, 1085, 1086], [1087, 1083, 1086, 1093, 1086],
      [1090, 1091, 1087, 1086], [1073, 1088, 1077, 1076]]"

text \<open>The two local counters of \<open>_analyze_sentiment\<close>.\<close>

definition pos_count :: "(pystr \<Rightarrow> pystr) \<Rightarrow> pystr \<Rightarrow> nat" where
  "pos_count lw t = count_in positive_words (lw t)"

definition neg_count :: "(pystr \<Rightarrow> pystr) \<Rightarrow> pystr \<Rightarrow> nat" where
  "neg_count lw t = count_in negative_words (lw t)"

definition analyze_sentiment :: "(pystr \<Rightarrow> pystr) \<Rightarrow> pystr \<Rightarrow> pystr" where
  "analyze_sentiment lw t =
     (if pos_count lw t > neg_count lw t then S ''positive''
      else if neg_count lw t > pos_count lw t then S ''negative''
      else S ''neutral'')"

section \<open>The vector index (\<open>VectorMemory\<close>)\<close>

text \<open>
  The two parallel lists of the class. The sentence encoder is outside the repository: \<open>enc\<close>
  maps a text to its embedding, or to \<open>None\<close> where \<open>encoder.encode\<close> raises. Embeddings are
  lists of reals, \<open>np.dot\<close> of two vectors is the sum of the products.
\<close>

record VectorMemory =
  embeddings :: "real list list"
  messages :: "Message list"

text \<open>\<open>xs[-n:]\<close> for a positive \<open>n\<close>: the last \<open>n\<close> elements, all of them when there are fewer.\<close>

definition lastn :: "nat \<Rightarrow> 'a list \<Rightarrow> 'a list" where
  "lastn n xs = drop (length xs - n) xs"


text \<open>The text that \<open>VectorMemory.add_message\<close> embeds; the literal is
  \<open>" [KARTINKA: "\<close> in Cyrillic capitals. An empty description is falsy.\<close>

definition text_for_embedding :: "Message \<Rightarrow> pystr" where
  "text_for_embedding message =
     (case image_description message of
        None \<Rightarrow> msg_text message
      | Some d \<Rightarrow>
          if d = [] then msg_text message
          else msg_text message
               @ [32, 91, 1050, 1040, 1056, 1058, 1048, 1053, 1050, 1040, 58, 32] @ d @ S '']'')"

text \<open>\<open>VectorMemory.add_message\<close>: an exception of the encoder is logged and nothing is stored.\<close>

definition vector_add_message ::
  "(pystr \<Rightarrow> real list option) \<Rightarrow> VectorMemory \<Rightarrow> Message \<Rightarrow> VectorMemory" where
  "vector_add_message enc vm message =
     (case enc (text_for_embedding message) of
        None \<Rightarrow> vm
      | Some embedding \<Rightarrow>
          let embeddings1 = embeddings vm @ [embedding];
              messages1 = messages vm @ [message]
          in if length embeddings1 > 1000
             then \<lparr>embeddings = lastn 1000 embeddings1, messages = lastn 1000 messages1\<rparr>
             else \<lparr>embeddings = embeddings1, messages = messages1\<rparr>)"




section \<open>The store (\<open>DatabaseManager\<close>)\<close>

text \<open>
  The two tables. A row of \<open>messages\<close> is the saved message and its pickled embedding; the
  list is in insertion order. \<open>user_profiles\<close> has \<open>user_id\<close> as its primary key and is
  written with \<open>INSERT OR REPLACE\<close>.
\<close>

record db_row =
  row_message :: Message
  row_embedding :: "real list option"

record Database =
  messages_table :: "db_row list"
  user_profiles_table :: "int \<rightharpoonup> UserProfile"

definition save_message :: "Database \<Rightarrow> Message \<Rightarrow> real list option \<Rightarrow> Database" where
  "save_message d message embedding =
     d\<lparr>messages_table := messages_table d @ [\<lparr>row_message = message, row_embedding = embedding\<rparr>]\<rparr>"

definition save_user_profile :: "Database \<Rightarrow> UserProfile \<Rightarrow> Database" where
  "save_user_profile d profile =
     d\<lparr>user_profiles_table := (user_profiles_table d)(profile_user_id profile \<mapsto> profile)\<rparr>"

text \<open>
  What a Python call hands back to its caller: \<open>PyNone\<close> for a function that ends without a
  \<open>return\<close> statement. The one \<open>logger.info\<close> line of \<open>cleanup_old_messages\<close> carries the
  number of deleted rows.
\<close>

datatype pyval = PyNone | PyInt int

datatype log_line = Deleted_old_messages int

text \<open>
  \<open>cleanup_old_messages\<close>; \<open>now\<close> is \<open>time.time()\<close>. The result is the store after the
  \<open>DELETE\<close>, the lines logged, and the value returned: the function has no \<open>return\<close>.
\<close>

definition cleanup_old_messages :: "real \<Rightarrow> int \<Rightarrow> Database \<Rightarrow> Database \<times> log_line list \<times> pyval" where
  "cleanup_old_messages now days d =
     (let cutoff_time = now - real_of_int (days * 24 * 3600);
          deleted = int (length (filter (\<lambda>r. timestamp (row_message r) < cutoff_time)
                                   (messages_table d)));
          d1 = d\<lparr>messages_table :=
                   filter (\<lambda>r. \<not> timestamp (row_message r) < cutoff_time) (messages_table d)\<rparr>
      in (d1, [Deleted_old_messages deleted], PyNone))"

section \<open>Profiles and ingestion (\<open>AdvancedContextManager\<close>)\<close>

text \<open>
  The state of the manager. \<open>recent_messages\<close> is a deque with \<open>maxlen = context_window\<close>.
  \<open>save_tasks\<close> holds the messages whose \<open>_save_message_async\<close> task has been created and has
  not run yet.
\<close>

record ContextManager =
  context_window :: nat
  db :: Database
  vector_memory :: VectorMemory
  recent_messages :: "Message list"
  user_profiles :: "int \<rightharpoonup> UserProfile"
  save_tasks :: "Message list"

text \<open>The humour markers \<open>khakha, lol, rzhaka\<close> and the interest tag \<open>memy\<close>.\<close>

definition humor_words :: "pystr list" where
  "humor_words = [[1093, 1072, 1093, 1072], [1083, 1086, 1083], [1088, 1078, 1072, 1082, 1072]]"

definition memy :: pystr where
  "memy = [1084, 1077, 1084, 1099]"

text \<open>The profile that \<open>_update_user_profile\<close> creates for an author it does not know.\<close>

definition new_profile :: "Message \<Rightarrow> UserProfile" where
  "new_profile message =
     \<lparr>profile_user_id = user_id message,
      profile_username = username message,
      personality_traits = \<lparr>aggressiveness = 0.5, friendliness = 0.5, humor = 0.5\<rparr>,
      interests = [],
      interaction_count = 0,
      last_seen = timestamp message,
      relationship_level = neznakomets\<rparr>"

text \<open>
  \<open>_update_user_profile\<close>, block by block. Each of the five functions below is one block of
  the body, in the order of the source, acting on the profile object:
  the counter, \<open>last_seen\<close> and \<open>username\<close>; the interest tag of an image; the trait moved by
  the sentiment; the humour trait; the relationship level, which is left as it is while the
  counter is at most 5.
\<close>

definition count_interaction :: "Message \<Rightarrow> UserProfile \<Rightarrow> UserProfile" where
  "count_interaction message profile =
     profile\<lparr>interaction_count := interaction_count profile + 1,
             last_seen := timestamp message,
             profile_username := username message\<rparr>"

definition note_image :: "Message \<Rightarrow> UserProfile \<Rightarrow> UserProfile" where
  "note_image message profile =
     (if has_image message
      then (if \<not> List.member (interests profile) memy
            then profile\<lparr>interests := interests profile @ [memy]\<rparr>
            else profile)
      else profile)"

definition adjust_sentiment :: "Message \<Rightarrow> UserProfile \<Rightarrow> UserProfile" where
  "adjust_sentiment message profile =
     (let traits = personality_traits profile
      in if sentiment message = Some (S ''negative'')
         then profile\<lparr>personality_traits := traits\<lparr>aggressiveness := aggressiveness traits + 0.1\<rparr>\<rparr>
         else if sentiment message = Some (S ''positive'')
         then profile\<lparr>personality_traits := traits\<lparr>friendliness := friendliness traits + 0.1\<rparr>\<rparr>
         else profile)"

definition adjust_humor :: "(pystr \<Rightarrow> pystr) \<Rightarrow> Message \<Rightarrow> UserProfile \<Rightarrow> UserProfile" where
  "adjust_humor lw message profile =
     (let traits = personality_traits profile
      in if any_in humor_words (lw (msg_text message))
         then profile\<lparr>personality_traits := traits\<lparr>humor := humor traits + 0.1\<rparr>\<rparr>
         else profile)"

definition set_relationship_level :: "UserProfile \<Rightarrow> UserProfile" where
  "set_relationship_level profile =
     (if interaction_count profile > 50 then profile\<lparr>relationship_level := bratan\<rparr>
      else if interaction_count profile > 20 then profile\<lparr>relationship_level := priyatel\<rparr>
      else if interaction_count profile > 5 then profile\<lparr>relationship_level := znakomyj\<rparr>
      else profile)"

text \<open>
  The profile object at the end of the body, from the dict entry \<open>profile\<close> that \<open>.get\<close>
  returned (\<open>None\<close> for an unknown author, for whom a new profile is made first).
\<close>

definition updated_profile :: "(pystr \<Rightarrow> pystr) \<Rightarrow> UserProfile option \<Rightarrow> Message \<Rightarrow> UserProfile" where
  "updated_profile lw profile message =
     set_relationship_level
       (adjust_humor lw message
          (adjust_sentiment message
             (note_image message
                (count_interaction message
                   (case profile of None \<Rightarrow> new_profile message | Some p \<Rightarrow> p)))))"

text \<open>\<open>_update_user_profile\<close>: the updated object is in the dict and is written to the store.\<close>

definition update_user_profile ::
  "(pystr \<Rightarrow> pystr) \<Rightarrow> ContextManager \<Rightarrow> Message \<Rightarrow> ContextManager" where
  "update_user_profile lw ctx message =
     (let profile = updated_profile lw (user_profiles ctx (user_id message)) message
      in ctx\<lparr>user_profiles := (user_profiles ctx)(user_id message \<mapsto> profile),
             db := save_user_profile (db ctx) profile\<rparr>)"

text \<open>\<open>deque.append\<close> on a deque with \<open>maxlen\<close>: a full deque drops its oldest element, and a
  deque of \<open>maxlen = 0\<close> stays empty.\<close>

definition deque_append :: "nat \<Rightarrow> 'a list \<Rightarrow> 'a \<Rightarrow> 'a list" where
  "deque_append maxlen xs x = lastn maxlen (xs @ [x])"

text \<open>\<open>AdvancedContextManager.add_message\<close>. The save to the store is only scheduled here.\<close>

definition add_message ::
  "(pystr \<Rightarrow> pystr) \<Rightarrow> (pystr \<Rightarrow> real list option) \<Rightarrow> ContextManager \<Rightarrow> Message \<Rightarrow> ContextManager" where
  "add_message lw enc ctx message =
     (let message1 = message\<lparr>importance := calculate_importance lw message\<rparr>;
          message2 = message1\<lparr>sentiment := Some (analyze_sentiment lw (msg_text message1))\<rparr>;
          ctx1 = ctx\<lparr>recent_messages := deque_append (context_window ctx) (recent_messages ctx) message2,
                     vector_memory := vector_add_message enc (vector_memory ctx) message2,
                     save_tasks := save_tasks ctx @ [message2]\<rparr>
      in update_user_profile lw ctx1 message2)"

text \<open>\<open>_save_message_async\<close>, the body of a scheduled task: a failing encoder is logged and
  the message is not saved.\<close>

definition save_message_async ::
  "(pystr \<Rightarrow> real list option) \<Rightarrow> Database \<Rightarrow> Message \<Rightarrow> Database" where
  "save_message_async enc d message =
     (let t = (case image_description message of
                 None \<Rightarrow> msg_text message
               | Some desc \<Rightarrow>
                   if desc \<noteq> [] \<and> \<not> str_in desc (msg_text message)
                   then msg_text message @ S '' '' @ desc
                   else msg_text message)
      in case enc t of
           None \<Rightarrow> d
         | Some embedding \<Rightarrow> save_message d message (Some embedding))"

text \<open>The manager right after \<open>__init__\<close> on an empty store.\<close>

definition empty_manager :: "nat \<Rightarrow> ContextManager" where
  "empty_manager cw =
     \<lparr>context_window = cw,
      db = \<lparr>messages_table = [], user_profiles_table = Map.empty\<rparr>,
      vector_memory = \<lparr>embeddings = [], messages = []\<rparr>,
      recent_messages = [],
      user_profiles = Map.empty,
      save_tasks = []\<rparr>"

section \<open>The response decision (\<open>MessageAnalyzer\<close>)\<close>

text \<open>\<open>bot_mentions\<close>: the three words of \<open>importance_mentions\<close> and \<open>'@'\<close>.\<close>

definition bot_mentions :: "pystr list" where
  "bot_mentions = [[1073, 1086, 1090], S ''bot'', [1076, 1080, 1084, 1086, 1085], S ''@'']"

text \<open>\<open>greeting_words\<close>: \<open>privet, zdarova, salam, khaj, hello, darova\<close>.\<close>

definition greeting_words :: "pystr list" where
  "greeting_words =
     [[1087, 1088, 1080, 1074, 1077, 1090], [1079, 1076, 1072, 1088, 1086, 1074, 1072],
      [1089, 1072, 1083, 1072, 1084], [1093, 1072, 1081], S ''hello'',
      [1076, 1072, 1088, 1086, 1074, 1072]]"

text \<open>\<open>question_indicators\<close>: \<open>?, kak, chto, gde, kogda, pochemu, zachem, mozhesh', pomogi\<close>.\<close>

definition question_indicators :: "pystr list" where
  "question_indicators =
     [S ''?'', [1082, 1072, 1082], [1095, 1090, 1086], [1075, 1076, 1077],
      [1082, 1086, 1075, 1076, 1072], [1087, 1086, 1095, 1077, 1084, 1091],
      [1079, 1072, 1095, 1077, 1084], [1084, 1086, 1078, 1077, 1096, 1100],
      [1087, 1086, 1084, 1086, 1075, 1080]]"

text \<open>\<open>tech_words\<close> of the analyzer: the six above and \<open>front, bek, js, python\<close>.\<close>

definition tech_words :: "pystr list" where
  "tech_words =
     [[1082, 1086, 1076], [1087, 1088, 1086, 1075, 1088, 1072, 1084, 1084],
      [1073, 1072, 1075], [1089, 1077, 1088, 1074, 1077, 1088],
      [1073, 1072, 1079, 1072], S ''api'', [1092, 1088, 1086, 1085, 1090],
      [1073, 1101, 1082], S ''js'', S ''python'']"

text \<open>
  \<open>should_respond\<close>. \<open>random.random()\<close> is the sequence \<open>rnd\<close> of draws: the first call of an
  invocation returns \<open>rnd 0\<close>, the second \<open>rnd 1\<close>. \<open>uid\<close> is \<open>user.id\<close>; the parameter
  \<open>has_image\<close> is never read.
\<close>

definition relationship_bonus :: "UserProfile option \<Rightarrow> real" where
  "relationship_bonus profile =
     (case profile of
        None \<Rightarrow> 0
      | Some p \<Rightarrow>
          if relationship_level p = bratan then 0.3
          else if relationship_level p = priyatel then 0.2
          else if relationship_level p = znakomyj then 0.1
          else 0)"

definition should_respond ::
  "(pystr \<Rightarrow> pystr) \<Rightarrow> (nat \<Rightarrow> real) \<Rightarrow> pystr \<Rightarrow> ContextManager \<Rightarrow> int \<Rightarrow> bool \<Rightarrow> bool
     \<Rightarrow> bool \<times> pystr" where
  "should_respond lw rnd message context_manager uid is_private has_image_arg =
     (if is_private then (True, S ''private_message'')
      else
        let message_lower = lw message;
            profile = user_profiles context_manager uid;
            bonus = relationship_bonus profile
        in if any_in bot_mentions message_lower then (True, S ''direct_mention'')
           else if any_in tech_words message_lower then (True, S ''tech_question'')
           else if any_in question_indicators message_lower then (True, S ''question_to_chat'')
           else if any_in greeting_words message_lower then (True, S ''greeting'')
           else if length message > 200 then (True, S ''long_post'')
           else if (case profile of None \<Rightarrow> False | Some p \<Rightarrow> interaction_count p > 10)
           then (if rnd 0 < 0.15 + bonus then (True, S ''active_user'')
                 else if rnd 1 < 0.08 + bonus then (True, S ''random_response'')
                 else (False, S ''no_reason''))
           else (if rnd 0 < 0.08 + bonus then (True, S ''random_response'')
                 else (False, S ''no_reason'')))"

section \<open>The inference call (\<open>SmartBot.ask_local_model\<close>)\<close>

text \<open>
  The exceptions that the body of the \<open>try\<close> can raise. All are subclasses of \<open>Exception\<close>;
  \<open>AsyncioTimeoutError\<close> is \<open>asyncio.TimeoutError\<close>, \<open>ClientError\<close> stands for a failure of the
  HTTP client (connection refused, broken transfer), \<open>JSONDecodeError\<close> for a body that is not
  JSON. Cancellation of the task is not an \<open>Exception\<close> and is outside the model.
\<close>

datatype py_exn =
  AsyncioTimeoutError | ClientError | JSONDecodeError | KeyError | TypeError | IndexError
  | AttributeError

text \<open>A value decoded by \<open>response.json()\<close>: \<open>None\<close>, a bool, a number, a str, a list or a
  dict. The dict is the list of its members in the order of the document; a key that occurs
  twice has the value of its last occurrence.\<close>

datatype json =
  JNull | JBool bool | JNumber real | JString pystr | JArray "json list"
  | JObject "(pystr \<times> json) list"

text \<open>
  What the HTTP exchange yields: \<open>Raises e\<close> when opening the session or posting raises
  \<open>e\<close>; otherwise a response with its status, the result of \<open>await response.text()\<close> and
  the result of \<open>await response.json()\<close>, each of which may raise. The exchange is an input
  of the model: the prompt only goes into the request.
\<close>

datatype http_outcome =
  Raises py_exn
  | Response int "py_exn + pystr" "py_exn + json"

text \<open>Sequencing of steps that may raise.\<close>

definition and_then :: "py_exn + 'a \<Rightarrow> ('a \<Rightarrow> py_exn + 'b) \<Rightarrow> py_exn + 'b" where
  "and_then r f = (case r of Inl e \<Rightarrow> Inl e | Inr x \<Rightarrow> f x)"

text \<open>\<open>"choices" in data\<close>: a key of a dict, an element of a list, a substring of a str; a
  \<open>TypeError\<close> on \<open>None\<close>, a bool or a number.\<close>

fun py_in :: "pystr \<Rightarrow> json \<Rightarrow> py_exn + bool" where
  "py_in k (JObject kvs) = Inr (List.member (map fst kvs) k)"
| "py_in k (JArray xs) = Inr (List.member xs (JString k))"
| "py_in k (JString s) = Inr (str_in k s)"
| "py_in k v = Inl TypeError"

text \<open>\<open>v[k]\<close> for a str \<open>k\<close>: only a dict accepts it.\<close>

fun subscript_key :: "json \<Rightarrow> pystr \<Rightarrow> py_exn + json" where
  "subscript_key (JObject kvs) k = (case map_of (rev kvs) k of None \<Rightarrow> Inl KeyError | Some v \<Rightarrow> Inr v)"
| "subscript_key v k = Inl TypeError"

text \<open>\<open>v[0]\<close>: the first element of a list, the first character of a str; a dict decoded
  from JSON has no key \<open>0\<close>.\<close>

fun subscript_0 :: "json \<Rightarrow> py_exn + json" where
  "subscript_0 (JArray []) = Inl IndexError"
| "subscript_0 (JArray (x # xs)) = Inr x"
| "subscript_0 (JString []) = Inl IndexError"
| "subscript_0 (JString (c # s)) = Inr (JString [c])"
| "subscript_0 (JObject kvs) = Inl KeyError"
| "subscript_0 v = Inl TypeError"

fun py_len :: "json \<Rightarrow> py_exn + nat" where
  "py_len (JArray xs) = Inr (length xs)"
| "py_len (JString s) = Inr (length s)"
| "py_len (JObject kvs) = Inr (length (remdups (map fst kvs)))"
| "py_len v = Inl TypeError"

text \<open>The characters that \<open>str.strip()\<close> and \<open>str.split()\<close> treat as whitespace.\<close>

definition is_space :: "nat \<Rightarrow> bool" where
  "is_space c =
     ((9 \<le> c \<and> c \<le> 13) \<or> (28 \<le> c \<and> c \<le> 32) \<or> c = 133 \<or> c = 160 \<or> c = 5760 \<or>
      (8192 \<le> c \<and> c \<le> 8202) \<or> c = 8232 \<or> c = 8233 \<or> c = 8239 \<or> c = 8287 \<or> c = 12288)"

definition strip :: "pystr \<Rightarrow> pystr" where
  "strip s = rev (dropWhile is_space (rev (dropWhile is_space s)))"

text \<open>\<open>v.strip()\<close> on a decoded value: only a str has the method.\<close>

fun py_strip :: "json \<Rightarrow> py_exn + pystr" where
  "py_strip (JString s) = Inr (strip s)"
| "py_strip v = Inl AttributeError"

text \<open>\<open>s.split()\<close>: the maximal runs of characters that are not whitespace. \<open>cur\<close> is the run
  being read.\<close>

fun split_acc :: "pystr \<Rightarrow> pystr \<Rightarrow> pystr list" where
  "split_acc cur [] = (if cur = [] then [] else [cur])"
| "split_acc cur (c # s) =
     (if is_space c then (if cur = [] then split_acc [] s else cur # split_acc [] s)
      else split_acc (cur @ [c]) s)"

definition split_ws :: "pystr \<Rightarrow> pystr list" where
  "split_ws s = split_acc [] s"

text \<open>\<open>" ".join(words)\<close>.\<close>

fun join_space :: "pystr list \<Rightarrow> pystr" where
  "join_space [] = []"
| "join_space [w] = w"
| "join_space (w # v # ws) = w @ [32] @ join_space (v # ws)"

text \<open>\<open>s.replace(old, "")\<close>: the occurrences of \<open>old\<close> are found from the left, without
  overlap, and removed; an empty \<open>old\<close> leaves the string as it is.\<close>

function replace_empty :: "pystr \<Rightarrow> pystr \<Rightarrow> pystr" where
  "replace_empty old [] = []"
| "replace_empty old (c # s) =
     (if old \<noteq> [] \<and> startswith (c # s) old then replace_empty old (drop (length old) (c # s))
      else c # replace_empty old s)"
  by pat_completeness auto
termination
  by (relation "measure (\<lambda>(old, s). length s)") auto

text \<open>The constants of \<open>Constants\<close> that the call reads.\<close>

definition HTTP_OK :: int where
  "HTTP_OK = 200"

definition MIN_REPLY_LENGTH :: nat where
  "MIN_REPLY_LENGTH = 3"

definition MAX_REPLY_LENGTH :: nat where
  "MAX_REPLY_LENGTH = 300"

text \<open>The markers \<open>###\<close>, \<open>Assistant:\<close>, \<open>System:\<close>, \<open>I am a\<close> and \<open>Dimon:\<close> (Cyrillic), in the
  order of the loop.\<close>

definition garbage :: "pystr list" where
  "garbage = [S ''###'', S ''Assistant:'', S ''System:'', S ''I am a'',
              [1044, 1080, 1084, 1086, 1085, 58]]"

text \<open>
  The five fixed replies, in the order of the source: a status other than 200, no
  choices, a reply that is too short (three characters, the last a question mark), a
  timeout, any other exception.
\<close>

definition reply_server_error :: pystr where
  "reply_server_error =
     [1061, 1091, 1081, 1085, 1103, 32, 1089, 32, 1089, 1077, 1088, 1074, 1077, 1088, 1086,
      1084, 44, 32, 1087, 1086, 1087, 1088, 1086, 1073, 1091, 1081, 32, 1077, 1097, 1105, 32,
      1088, 1072, 1079, 46]"

definition reply_no_choices :: pystr where
  "reply_no_choices =
     [1052, 1086, 1076, 1077, 1083, 1100, 32, 1079, 1072, 1090, 1091, 1087, 1080, 1083, 1072,
      44, 32, 1073, 1083, 1103, 46]"

definition reply_too_short :: pystr where
  "reply_too_short = [1063, 1105, 63]"

definition reply_timeout :: pystr where
  "reply_timeout =
     [1052, 1086, 1076, 1077, 1083, 1100, 32, 1090, 1091, 1087, 1080, 1090, 44, 32, 1076,
      1086, 1083, 1075, 1086, 32, 1076, 1091, 1084, 1072, 1077, 1090, 46]"

definition reply_exception :: pystr where
  "reply_exception =
     [1063, 1090, 1086, 45, 1090, 1086, 32, 1087, 1086, 1096, 1083, 1086, 32, 1085, 1077, 32,
      1090, 1072, 1082, 44, 32, 1073, 1083, 1103, 46]"

text \<open>\<open>data["choices"][0]["message"]["content"].strip()\<close>.\<close>

definition reply_content :: "json \<Rightarrow> py_exn + pystr" where
  "reply_content data =
     and_then (subscript_key data (S ''choices'')) (\<lambda>choices.
     and_then (subscript_0 choices) (\<lambda>choice.
     and_then (subscript_key choice (S ''message'')) (\<lambda>message.
     and_then (subscript_key message (S ''content'')) py_strip)))"

text \<open>The loop over the markers.\<close>

definition strip_garbage :: "pystr \<Rightarrow> pystr" where
  "strip_garbage reply = fold replace_empty garbage reply"

text \<open>\<open>" ".join(reply.split()).strip()\<close>.\<close>

definition collapse_whitespace :: "pystr \<Rightarrow> pystr" where
  "collapse_whitespace reply = strip (join_space (split_ws reply))"

text \<open>The two length tests at the end.\<close>

definition fit_length :: "pystr \<Rightarrow> pystr" where
  "fit_length reply =
     (if length reply < MIN_REPLY_LENGTH then reply_too_short
      else if length reply > MAX_REPLY_LENGTH then take MAX_REPLY_LENGTH reply @ S ''...''
      else reply)"

text \<open>The body of the \<open>try\<close>: a value, or the exception that leaves it.\<close>

definition ask_local_model_try :: "http_outcome \<Rightarrow> py_exn + pystr" where
  "ask_local_model_try outcome =
     (case outcome of
        Raises e \<Rightarrow> Inl e
      | Response status text_result json_result \<Rightarrow>
          if status \<noteq> HTTP_OK
          then and_then text_result (\<lambda>error_text. Inr reply_server_error)
          else
            and_then json_result (\<lambda>data.
            and_then (py_in (S ''choices'') data) (\<lambda>has_choices.
              if \<not> has_choices then Inr reply_no_choices
              else
                and_then (subscript_key data (S ''choices'')) (\<lambda>choices.
                and_then (py_len choices) (\<lambda>n.
                  if n = 0 then Inr reply_no_choices
                  else
                    and_then (reply_content data) (\<lambda>reply.
                      Inr (fit_length (collapse_whitespace (strip_garbage reply)))))))))"

text \<open>\<open>ask_local_model\<close>: the \<open>try\<close> with its two handlers, \<open>except asyncio.TimeoutError\<close> and
  \<open>except Exception\<close>. \<open>Inl\<close> would be an exception that reaches the caller.\<close>

definition ask_local_model :: "http_outcome \<Rightarrow> py_exn + pystr" where
  "ask_local_model outcome =
     (case ask_local_model_try outcome of
        Inr reply \<Rightarrow> Inr reply
      | Inl AsyncioTimeoutError \<Rightarrow> Inr reply_timeout
      | Inl e \<Rightarrow> Inr reply_exception)"



section \<open>The scheduled announcer (\<open>ScheduledMessages\<close>)\<close>

text \<open>
  A reading of \<open>get_moscow_time()\<close>: the local date as its day number
  (\<open>date.toordinal()\<close>, day 1 is Monday 1 January of year 1), the hour and the minute.
  \<open>weekday\<close> is Python's: Monday is 0, Sunday is 6. \<open>date_of\<close> is \<open>now.date()\<close>.
\<close>

record datetime =
  ordinal :: int
  hour :: nat
  minute :: nat

definition weekday :: "datetime \<Rightarrow> nat" where
  "weekday now = nat ((ordinal now + 6) mod 7)"

definition date_of :: "datetime \<Rightarrow> int" where
  "date_of now = ordinal now"

definition WEEKEND_START :: nat where
  "WEEKEND_START = 5"

definition MORNING_HOUR_START :: nat where
  "MORNING_HOUR_START = 8"

definition MORNING_HOUR_END :: nat where
  "MORNING_HOUR_END = 9"

definition EVENING_HOUR_START :: nat where
  "EVENING_HOUR_START = 17"

definition EVENING_HOUR_END :: nat where
  "EVENING_HOUR_END = 18"

text \<open>The state of the announcer: the date of the last greeting and of the last farewell,
  \<open>None\<close> after the start of the process.\<close>

record ScheduledMessages =
  last_greeting_date :: "int option"
  last_farewell_date :: "int option"

definition should_send_greeting :: "datetime \<Rightarrow> ScheduledMessages \<Rightarrow> bool" where
  "should_send_greeting now sch =
     (if weekday now \<ge> WEEKEND_START then False
      else if \<not> (MORNING_HOUR_START \<le> hour now \<and> hour now < MORNING_HOUR_END) then False
      else if last_greeting_date sch = Some (date_of now) then False
      else True)"

definition should_send_farewell :: "datetime \<Rightarrow> ScheduledMessages \<Rightarrow> bool" where
  "should_send_farewell now sch =
     (if weekday now \<ge> WEEKEND_START then False
      else if \<not> (EVENING_HOUR_START \<le> hour now \<and> hour now < EVENING_HOUR_END) then False
      else if last_farewell_date sch = Some (date_of now) then False
      else True)"

text \<open>The four canned messages of the \<open>except\<close> branches: the greeting of a Friday and of
  another day, the farewell of a Friday and of another day.\<close>

definition greeting_friday :: pystr where
  "greeting_friday =
     [1057, 1072, 1083, 1072, 1084, 32, 1087, 1072, 1094, 1072, 1085, 1099, 33, 32, 1055,
      1103, 1090, 1085, 1080, 1095, 1082, 1072, 32, 1087, 1086, 1076, 1098, 1077, 1093, 1072,
      1083, 1072, 44, 32, 1089, 1082, 1086, 1088, 1086, 32, 1085, 1072, 32, 1074, 1099, 1093,
      1086, 1076, 1085, 1099, 1077, 32, 128293]"

definition greeting_workday :: pystr where
  "greeting_workday =
     [1044, 1086, 1073, 1088, 1086, 1077, 32, 1091, 1090, 1088, 1086, 44, 32, 1082, 1086,
      1084, 1072, 1085, 1076, 1072, 33, 32, 1055, 1086, 1075, 1085, 1072, 1083, 1080, 32,
      1088, 1072, 1073, 1086, 1090, 1072, 1090, 1100, 32, 128170]"

definition farewell_friday :: pystr where
  "farewell_friday =
     [1042, 1089, 1105, 44, 32, 1087, 1072, 1094, 1072, 1085, 1099, 44, 32, 1074, 1099, 1093,
      1086, 1076, 1085, 1099, 1077, 33, 32, 1054, 1090, 1076, 1099, 1093, 1072, 1081, 1090,
      1077, 32, 1085, 1086, 1088, 1084, 1072, 1083, 1100, 1085, 1086, 32, 127867]"

definition farewell_workday :: pystr where
  "farewell_workday =
     [1044, 1086, 32, 1079, 1072, 1074, 1090, 1088, 1072, 44, 32, 1082, 1086, 1084, 1072,
      1085, 1076, 1072, 33, 32, 1061, 1086, 1088, 1086, 1096, 1077, 1075, 1086, 32, 1074,
      1077, 1095, 1077, 1088, 1072, 32, 128075]"

text \<open>
  \<open>generate_morning_greeting\<close>; \<open>now\<close> is its own reading of the clock and \<open>outcome\<close> the HTTP
  exchange of its call of \<open>ask_local_model\<close>. The prompt of a day other than Friday reads
  \<open>day_names[now.weekday()]\<close> from a list of four names, before the \<open>try\<close>: on a Saturday or
  Sunday that is an \<open>IndexError\<close>. The date is stored only when the call returns.
\<close>

definition generate_morning_greeting ::
  "datetime \<Rightarrow> http_outcome \<Rightarrow> ScheduledMessages \<Rightarrow> py_exn + (pystr \<times> ScheduledMessages)" where
  "generate_morning_greeting now outcome sch =
     (let is_friday = (weekday now = 4)
      in if \<not> is_friday \<and> \<not> weekday now < 4 then Inl IndexError
         else case ask_local_model outcome of
                Inr reply \<Rightarrow> Inr (reply, sch\<lparr>last_greeting_date := Some (date_of now)\<rparr>)
              | Inl e \<Rightarrow> Inr (if is_friday then greeting_friday else greeting_workday, sch))"

definition generate_evening_farewell ::
  "datetime \<Rightarrow> http_outcome \<Rightarrow> ScheduledMessages \<Rightarrow> py_exn + (pystr \<times> ScheduledMessages)" where
  "generate_evening_farewell now outcome sch =
     (let is_friday = (weekday now = 4)
      in case ask_local_model outcome of
           Inr reply \<Rightarrow> Inr (reply, sch\<lparr>last_farewell_date := Some (date_of now)\<rparr>)
         | Inl e \<Rightarrow> Inr (if is_friday then farewell_friday else farewell_workday, sch))"

text \<open>
  What one run of \<open>check_scheduled_messages\<close> meets: for each slot the reading of the clock
  in the test, the reading in the generator, the HTTP exchange of the generator, and the
  exception of \<open>send_message\<close>, \<open>None\<close> when the message is sent.
\<close>

record tick =
  greeting_check_now :: datetime
  greeting_now :: datetime
  greeting_outcome :: http_outcome
  greeting_send :: "py_exn option"
  farewell_check_now :: datetime
  farewell_now :: datetime
  farewell_outcome :: http_outcome
  farewell_send :: "py_exn option"

text \<open>What a run leaves behind: the log line that announces a slot, written when the test
  of the slot has passed; a message handed to the chat; the error line of the handler.\<close>

datatype slot = Morning | Evening

datatype event = Announcing slot | Sent slot pystr | Error_logged py_exn

text \<open>The two \<open>if\<close> blocks of the \<open>try\<close>: the new state, the events, and the exception that
  ends the block, if any.\<close>

definition greeting_step ::
  "tick \<Rightarrow> ScheduledMessages \<Rightarrow> ScheduledMessages \<times> event list \<times> py_exn option" where
  "greeting_step tk sch =
     (if should_send_greeting (greeting_check_now tk) sch
      then (case generate_morning_greeting (greeting_now tk) (greeting_outcome tk) sch of
              Inl e \<Rightarrow> (sch, [Announcing Morning], Some e)
            | Inr (greeting, sch1) \<Rightarrow>
                (case greeting_send tk of
                   Some e \<Rightarrow> (sch1, [Announcing Morning], Some e)
                 | None \<Rightarrow> (sch1, [Announcing Morning, Sent Morning greeting], None)))
      else (sch, [], None))"

definition farewell_step ::
  "tick \<Rightarrow> ScheduledMessages \<Rightarrow> ScheduledMessages \<times> event list \<times> py_exn option" where
  "farewell_step tk sch =
     (if should_send_farewell (farewell_check_now tk) sch
      then (case generate_evening_farewell (farewell_now tk) (farewell_outcome tk) sch of
              Inl e \<Rightarrow> (sch, [Announcing Evening], Some e)
            | Inr (farewell, sch1) \<Rightarrow>
                (case farewell_send tk of
                   Some e \<Rightarrow> (sch1, [Announcing Evening], Some e)
                 | None \<Rightarrow> (sch1, [Announcing Evening, Sent Evening farewell], None)))
      else (sch, [], None))"

text \<open>\<open>check_scheduled_messages\<close>; \<open>smart_bot.scheduler\<close> is \<open>None\<close> when the schedule is
  disabled. An exception in the first block skips the second.\<close>

definition check_scheduled_messages ::
  "tick \<Rightarrow> ScheduledMessages option \<Rightarrow> ScheduledMessages option \<times> event list" where
  "check_scheduled_messages tk scheduler =
     (case scheduler of
        None \<Rightarrow> (None, [])
      | Some sch \<Rightarrow>
          (case greeting_step tk sch of
             (sch1, ev1, Some e) \<Rightarrow> (Some sch1, ev1 @ [Error_logged e])
           | (sch1, ev1, None) \<Rightarrow>
               (case farewell_step tk sch1 of
                  (sch2, ev2, Some e) \<Rightarrow> (Some sch2, ev1 @ ev2 @ [Error_logged e])
                | (sch2, ev2, None) \<Rightarrow> (Some sch2, ev1 @ ev2))))"

text \<open>A sequence of timer ticks, and a tick all of whose readings of the clock are on the
  day \<open>d\<close>.\<close>

fun run_ticks ::
  "ScheduledMessages option \<Rightarrow> tick list \<Rightarrow> ScheduledMessages option \<times> event list" where
  "run_ticks scheduler [] = (scheduler, [])"
| "run_ticks scheduler (tk # tks) =
     (case check_scheduled_messages tk scheduler of
        (scheduler1, ev) \<Rightarrow>
          (case run_ticks scheduler1 tks of (scheduler2, evs) \<Rightarrow> (scheduler2, ev @ evs)))"

definition on_day :: "int \<Rightarrow> tick \<Rightarrow> bool" where
  "on_day d tk =
     (ordinal (greeting_check_now tk) = d \<and> ordinal (greeting_now tk) = d \<and>
      ordinal (farewell_check_now tk) = d \<and> ordinal (farewell_now tk) = d)"

text \<open>The slot of the day \<open>d\<close> is sent: the date stored for the slot is \<open>d\<close>.\<close>

definition greeted :: "int \<Rightarrow> ScheduledMessages option \<Rightarrow> bool" where
  "greeted d scheduler = (case scheduler of None \<Rightarrow> False | Some sch \<Rightarrow> last_greeting_date sch = Some d)"

definition parted :: "int \<Rightarrow> ScheduledMessages option \<Rightarrow> bool" where
  "parted d scheduler = (case scheduler of None \<Rightarrow> False | Some sch \<Rightarrow> last_farewell_date sch = Some d)"

section \<open>Runs of operations and the vocabulary of the specification\<close>

text \<open>A sequence of profile updates, and a sequence of additions to the vector index, each
  applied from left to right.\<close>

definition updates :: "(pystr \<Rightarrow> pystr) \<Rightarrow> ContextManager \<Rightarrow> Message list \<Rightarrow> ContextManager" where
  "updates lw ctx ms = foldl (update_user_profile lw) ctx ms"




text \<open>How many messages of a sequence are from the author \<open>uid\<close>.\<close>

definition author_count :: "int \<Rightarrow> Message list \<Rightarrow> int" where
  "author_count uid ms = int (length (filter (\<lambda>m. user_id m = uid) ms))"

text \<open>
  The threshold table of the specification, in its words: close friend above 50, friend
  above 20, acquaintance above 5, stranger otherwise; and the order of the four tiers,
  stranger lowest.
\<close>

definition tier_of_count :: "int \<Rightarrow> pystr" where
  "tier_of_count n =
     (if n > 50 then bratan else if n > 20 then priyatel else if n > 5 then znakomyj
      else neznakomets)"

definition tier_rank :: "pystr \<Rightarrow> nat" where
  "tier_rank l =
     (if l = bratan then 3 else if l = priyatel then 2 else if l = znakomyj then 1 else 0)"

section \<open>Concrete inputs\<close>

text \<open>A \<open>Message\<close> built as \<open>handle_private_message\<close> builds it: six fields given, the other
  six at the defaults of the dataclass.\<close>

definition plain_message :: "int \<Rightarrow> pystr \<Rightarrow> real \<Rightarrow> int \<Rightarrow> Message" where
  "plain_message uid t ts mid =
     \<lparr>user_id = uid, username = S ''ann'', msg_text = t, timestamp = ts, chat_id = 5,
      message_id = mid, is_reply = False, reply_to_user = None, sentiment = None,
      importance = 0.5, has_image = False, image_description = None\<rparr>"

text \<open>The texts \<open>Kruto!\<close> and \<open>spasibo\<close> in Cyrillic, each with one positive keyword.\<close>

definition kruto :: pystr where
  "kruto = [1050, 1088, 1091, 1090, 1086, 33]"

definition spasibo :: pystr where
  "spasibo = [1089, 1087, 1072, 1089, 1080, 1073, 1086]"

text \<open>An encoder for the examples: a one-dimensional embedding, the length of the text less
  two, and a failure on the empty text.\<close>

definition length_enc :: "pystr \<Rightarrow> real list option" where
  "length_enc t = (if t = [] then None else Some [real (length t) - 2])"

text \<open>A store with two saved messages at the time 8640000 (day 100): one 31 days old, one a
  day old.\<close>

definition store_two :: Database where
  "store_two =
     \<lparr>messages_table =
        [\<lparr>row_message = plain_message 7 (S ''old'') 5961600 1, row_embedding = None\<rparr>,
         \<lparr>row_message = plain_message 7 (S ''new'') 8553600 2, row_embedding = None\<rparr>],
      user_profiles_table = Map.empty\<rparr>"


text \<open>A tick all of whose readings are the day \<open>d\<close> at \<open>h:m\<close>, whose inference calls time
  out and whose messages are sent; and the announcer right after \<open>__init__\<close>.\<close>

definition at_time :: "int \<Rightarrow> nat \<Rightarrow> nat \<Rightarrow> tick" where
  "at_time d h m =
     \<lparr>greeting_check_now = \<lparr>ordinal = d, hour = h, minute = m\<rparr>,
      greeting_now = \<lparr>ordinal = d, hour = h, minute = m\<rparr>,
      greeting_outcome = Raises AsyncioTimeoutError,
      greeting_send = None,
      farewell_check_now = \<lparr>ordinal = d, hour = h, minute = m\<rparr>,
      farewell_now = \<lparr>ordinal = d, hour = h, minute = m\<rparr>,
      farewell_outcome = Raises AsyncioTimeoutError,
      farewell_send = None\<rparr>"

definition new_scheduler :: "ScheduledMessages option" where
  "new_scheduler = Some \<lparr>last_greeting_date = None, last_farewell_date = None\<rparr>"

section \<open>Facts about strings\<close>

lemma S_at: "S ''@'' = [64]"
  by (simp add: S_def)

lemma str_in_single: "str_in [c] t \<longleftrightarrow> c \<in> set t"
  by (induction t) auto

lemma lower_basic_keeps_at: "str_in (S ''@'') s \<Longrightarrow> str_in (S ''@'') (lower_basic s)"
  by (auto simp add: S_at str_in_single lower_basic_def lower_cp_def image_iff)

section \<open>The decision in a private chat\<close>

text \<open>
  Claim C1. In a private (one-to-one) chat \<open>should_respond\<close> answers \<open>True\<close> with the reason
  tag of that case, whatever the text, the profiles, the author and the random draws are: the
  first test of the function returns before any keyword, length or random rule is read. The
  tag is the string \<open>private_message\<close>; the specification calls this tag \<open>direct_channel\<close>.
\<close>

theorem should_respond_private:
  "should_respond lw rnd message context_manager uid True img = (True, S ''private_message'')"
  by (simp add: should_respond_def)

section \<open>Bounds of the importance score\<close>

text \<open>
  Claim C2. For every text, with or without an attachment and whatever keywords occur, the
  importance score lies between 0 and 1, and the score of a message with the attachment flag
  set is at least the score of the same message with the flag cleared.
\<close>

theorem calculate_importance_bounds:
  "0 \<le> calculate_importance lw m \<and> calculate_importance lw m \<le> 1 \<and>
   calculate_importance lw (m\<lparr>has_image := False\<rparr>) \<le> calculate_importance lw (m\<lparr>has_image := True\<rparr>)"
  by (simp add: calculate_importance_def Let_def min_def)

section \<open>Sentiment follows the two counters\<close>

text \<open>
  Claim C3. The sentiment of a text is \<open>positive\<close> exactly when more positive than negative
  keywords match, \<open>negative\<close> exactly when more negative than positive keywords match, and
  \<open>neutral\<close> exactly when the two counts are equal (0 and 0 included). Hence a text \<open>t'\<close>
  whose two counts are those of \<open>t\<close> exchanged is positive where \<open>t\<close> is negative, negative
  where \<open>t\<close> is positive, and neutral where \<open>t\<close> is neutral.
\<close>

theorem analyze_sentiment_counts:
  "(analyze_sentiment lw t = S ''positive'' \<longleftrightarrow> neg_count lw t < pos_count lw t) \<and>
   (analyze_sentiment lw t = S ''negative'' \<longleftrightarrow> pos_count lw t < neg_count lw t) \<and>
   (analyze_sentiment lw t = S ''neutral'' \<longleftrightarrow> pos_count lw t = neg_count lw t) \<and>
   (pos_count lw t' = neg_count lw t \<and> neg_count lw t' = pos_count lw t \<longrightarrow>
      (analyze_sentiment lw t' = S ''negative'' \<longleftrightarrow> analyze_sentiment lw t = S ''positive'') \<and>
      (analyze_sentiment lw t' = S ''positive'' \<longleftrightarrow> analyze_sentiment lw t = S ''negative'') \<and>
      (analyze_sentiment lw t' = S ''neutral'' \<longleftrightarrow> analyze_sentiment lw t = S ''neutral''))"
  by (auto simp add: analyze_sentiment_def S_def)

text \<open>The text \<open>Kruto!\<close> (capital K, one positive keyword) against \<open>plokho\<close> (one negative
  keyword).\<close>

theorem analyze_sentiment_counts_witness:
  "pos_count lower_basic [1087, 1083, 1086, 1093, 1086]
     = neg_count lower_basic [1050, 1088, 1091, 1090, 1086, 33] \<and>
   neg_count lower_basic [1087, 1083, 1086, 1093, 1086]
     = pos_count lower_basic [1050, 1088, 1091, 1090, 1086, 33] \<and>
   neg_count lower_basic [1050, 1088, 1091, 1090, 1086, 33]
     < pos_count lower_basic [1050, 1088, 1091, 1090, 1086, 33] \<and>
   analyze_sentiment lower_basic [1050, 1088, 1091, 1090, 1086, 33] = S ''positive'' \<and>
   analyze_sentiment lower_basic [1087, 1083, 1086, 1093, 1086] = S ''negative''"
proof -
  let ?t = "[1050, 1088, 1091, 1090, 1086, 33]" and ?t' = "[1087, 1083, 1086, 1093, 1086]"
  have counts:
    "pos_count lower_basic ?t = 1" "neg_count lower_basic ?t = 0"
    "pos_count lower_basic ?t' = 0" "neg_count lower_basic ?t' = 1"
    by (simp_all add: pos_count_def neg_count_def count_in_def positive_words_def
        negative_words_def lower_basic_def lower_cp_def)
  from counts analyze_sentiment_counts [of lower_basic ?t ?t'] show ?thesis
    by simp
qed

section \<open>A mention sign anywhere addresses the bot\<close>

text \<open>
  Claim C10. \<open>'@'\<close> is one of \<open>bot_mentions\<close>. So in a group chat (\<open>is_private\<close> false) every
  text that contains \<open>'@'\<close> is answered with reason \<open>direct_mention\<close>, whatever else the text
  contains, whoever wrote it and whatever the random draws are: the rule stands before the
  technical, question, greeting, length and random rules. The test reads the lower-cased
  text, so the case mapping must keep the sign, as Python's does.
\<close>

theorem should_respond_at_sign:
  assumes "\<forall>s. str_in (S ''@'') s \<longrightarrow> str_in (S ''@'') (lw s)"
    and "str_in (S ''@'') message"
  shows "should_respond lw rnd message context_manager uid False img = (True, S ''direct_mention'')"
  using assms by (simp add: should_respond_def any_in_def bot_mentions_def Let_def)

text \<open>The text \<open>Hi @ann?\<close>, which also holds a question mark, from an unknown author.\<close>

theorem should_respond_at_sign_witness:
  "str_in (S ''@'') (lower_basic (S ''Hi @ann?'')) \<and>
   str_in (S ''@'') (S ''Hi @ann?'') \<and>
   should_respond lower_basic (\<lambda>n. 0) (S ''Hi @ann?'') (empty_manager 250) 7 False False
     = (True, S ''direct_mention'')"
proof -
  have keeps: "\<forall>s. str_in (S ''@'') s \<longrightarrow> str_in (S ''@'') (lower_basic s)"
    by (simp add: lower_basic_keeps_at)
  have at: "str_in (S ''@'') (S ''Hi @ann?'')"
    by (simp add: S_def)
  from keeps at should_respond_at_sign [OF keeps at] show ?thesis
    by blast
qed

section \<open>Facts about the profile update\<close>

lemma levels_distinct:
  "bratan \<noteq> priyatel" "bratan \<noteq> znakomyj" "bratan \<noteq> neznakomets"
  "priyatel \<noteq> znakomyj" "priyatel \<noteq> neznakomets" "znakomyj \<noteq> neznakomets"
  by (simp_all add: bratan_def priyatel_def znakomyj_def neznakomets_def)

lemma tier_rank_mono: "a \<le> b \<Longrightarrow> tier_rank (tier_of_count a) \<le> tier_rank (tier_of_count b)"
  using levels_distinct by (auto simp add: tier_rank_def tier_of_count_def)

lemma count_interaction_fields:
  "interaction_count (count_interaction m p) = interaction_count p + 1"
  "relationship_level (count_interaction m p) = relationship_level p"
  "personality_traits (count_interaction m p) = personality_traits p"
  by (simp_all add: count_interaction_def)

lemma note_image_fields:
  "interaction_count (note_image m p) = interaction_count p"
  "relationship_level (note_image m p) = relationship_level p"
  "personality_traits (note_image m p) = personality_traits p"
  by (simp_all add: note_image_def)

lemma adjust_sentiment_fields:
  "interaction_count (adjust_sentiment m p) = interaction_count p"
  "relationship_level (adjust_sentiment m p) = relationship_level p"
  "friendliness (personality_traits (adjust_sentiment m p)) =
     friendliness (personality_traits p) + (if sentiment m = Some (S ''positive'') then 0.1 else 0)"
  by (simp_all add: adjust_sentiment_def Let_def S_def)

lemma adjust_humor_fields:
  "interaction_count (adjust_humor lw m p) = interaction_count p"
  "relationship_level (adjust_humor lw m p) = relationship_level p"
  "friendliness (personality_traits (adjust_humor lw m p)) = friendliness (personality_traits p)"
  by (simp_all add: adjust_humor_def Let_def)

lemma set_relationship_level_fields:
  "interaction_count (set_relationship_level p) = interaction_count p"
  "personality_traits (set_relationship_level p) = personality_traits p"
  "relationship_level (set_relationship_level p) =
     (if interaction_count p > 50 then bratan else if interaction_count p > 20 then priyatel
      else if interaction_count p > 5 then znakomyj else relationship_level p)"
  by (simp_all add: set_relationship_level_def)

lemmas profile_fields = count_interaction_fields note_image_fields adjust_sentiment_fields
  adjust_humor_fields set_relationship_level_fields

lemma updated_profile_count:
  "interaction_count (updated_profile lw po m) =
     (case po of None \<Rightarrow> 1 | Some p \<Rightarrow> interaction_count p + 1)"
  by (simp add: updated_profile_def profile_fields new_profile_def split: option.split)

lemma updated_profile_level:
  "relationship_level (updated_profile lw po m) =
     (let n = interaction_count (updated_profile lw po m)
      in if n > 50 then bratan else if n > 20 then priyatel else if n > 5 then znakomyj
         else (case po of None \<Rightarrow> neznakomets | Some p \<Rightarrow> relationship_level p))"
  by (simp add: updated_profile_def profile_fields new_profile_def Let_def split: option.split)

lemma updated_profile_friendliness:
  "friendliness (personality_traits (updated_profile lw po m)) =
     friendliness (personality_traits (case po of None \<Rightarrow> new_profile m | Some p \<Rightarrow> p))
       + (if sentiment m = Some (S ''positive'') then 0.1 else 0)"
  by (simp add: updated_profile_def profile_fields split: option.split)

lemma update_user_profile_profiles:
  "user_profiles (update_user_profile lw ctx m) =
     (user_profiles ctx)(user_id m \<mapsto> updated_profile lw (user_profiles ctx (user_id m)) m)"
  by (simp add: update_user_profile_def Let_def)

lemma update_other:
  "user_id m \<noteq> uid \<Longrightarrow> user_profiles (update_user_profile lw ctx m) uid = user_profiles ctx uid"
  by (simp add: update_user_profile_profiles)

lemma update_new:
  assumes "user_profiles ctx (user_id m) = None"
  shows "\<exists>p. user_profiles (update_user_profile lw ctx m) (user_id m) = Some p \<and>
             interaction_count p = 1 \<and> relationship_level p = neznakomets"
  using assms
  by (simp add: update_user_profile_profiles updated_profile_count updated_profile_level)

lemma update_known:
  assumes "user_profiles ctx (user_id m) = Some p0"
  shows "\<exists>p. user_profiles (update_user_profile lw ctx m) (user_id m) = Some p \<and>
             interaction_count p = interaction_count p0 + 1 \<and>
             relationship_level p =
               (if interaction_count p0 + 1 > 50 then bratan
                else if interaction_count p0 + 1 > 20 then priyatel
                else if interaction_count p0 + 1 > 5 then znakomyj
                else relationship_level p0)"
  using assms
  by (simp add: update_user_profile_profiles updated_profile_count updated_profile_level)

lemma updates_snoc: "updates lw ctx (ms @ [m]) = update_user_profile lw (updates lw ctx ms) m"
  by (simp add: updates_def)

lemma author_count_snoc:
  "author_count uid (ms @ [m]) = author_count uid ms + (if user_id m = uid then 1 else 0)"
  by (simp add: author_count_def)

lemma author_count_nonneg: "0 \<le> author_count uid ms"
  by (simp add: author_count_def)

lemma updates_tracked:
  assumes "user_profiles ctx uid = None"
  shows "if author_count uid ms = 0 then user_profiles (updates lw ctx ms) uid = None
         else (\<exists>p. user_profiles (updates lw ctx ms) uid = Some p \<and>
                  interaction_count p = author_count uid ms \<and>
                  relationship_level p = tier_of_count (author_count uid ms))"
proof (induction ms rule: rev_induct)
  case Nil
  then show ?case using assms by (simp add: updates_def author_count_def)
next
  case (snoc m ms)
  show ?case
  proof (cases "user_id m = uid")
    case False
    then show ?thesis using snoc
      by (simp add: updates_snoc author_count_snoc update_other)
  next
    case True
    show ?thesis
    proof (cases "author_count uid ms = 0")
      case z: True
      with snoc have "user_profiles (updates lw ctx ms) (user_id m) = None"
        using True by simp
      from update_new [OF this, of lw] show ?thesis
        using True z by (simp add: updates_snoc author_count_snoc tier_of_count_def)
    next
      case nz: False
      with snoc obtain p0 where p0: "user_profiles (updates lw ctx ms) (user_id m) = Some p0"
        "interaction_count p0 = author_count uid ms"
        "relationship_level p0 = tier_of_count (author_count uid ms)"
        using True by auto
      have pos: "0 < author_count uid ms"
        using nz author_count_nonneg [of uid ms] by linarith
      from update_known [OF p0(1), of lw] p0(2,3) pos show ?thesis
        using True by (auto simp add: updates_snoc author_count_snoc tier_of_count_def)
    qed
  qed
qed

lemma author_count_append: "author_count uid (ms @ ms') = author_count uid ms + author_count uid ms'"
  by (simp add: author_count_def)

lemma add_message_profiles:
  "user_profiles (add_message lw enc ctx m) =
     (user_profiles ctx)(user_id m \<mapsto>
        updated_profile lw (user_profiles ctx (user_id m))
          (m\<lparr>importance := calculate_importance lw m,
             sentiment := Some (analyze_sentiment lw (msg_text m))\<rparr>))"
  by (simp add: add_message_def Let_def update_user_profile_profiles)

section \<open>Facts about the vector index\<close>











section \<open>The relationship level follows the interaction count\<close>

text \<open>
  Claim C4. Take a manager in which the author \<open>uid\<close> has no profile yet, as in a new manager,
  and apply any sequence \<open>ms\<close> of profile updates, of any authors. If none of them is from
  \<open>uid\<close> the author still has no profile; otherwise the profile's counter is the number of
  updates from \<open>uid\<close> and its relationship level is the band of that counter: \<open>bratan\<close> (close
  friend) above 50, \<open>priyatel'\<close> (friend) above 20, \<open>znakomyj\<close> (acquaintance) above 5,
  \<open>neznakomets\<close> (stranger) otherwise. After any further updates \<open>ms'\<close> the counter and the
  rank of the level are at least what they were.
\<close>

theorem relationship_level_band:
  assumes "user_profiles ctx uid = None"
  shows "(author_count uid ms = 0 \<longrightarrow> user_profiles (updates lw ctx ms) uid = None) \<and>
         (0 < author_count uid ms \<longrightarrow>
            (\<exists>p. user_profiles (updates lw ctx ms) uid = Some p \<and>
                 interaction_count p = author_count uid ms \<and>
                 relationship_level p = tier_of_count (interaction_count p))) \<and>
         (\<forall>p p'. user_profiles (updates lw ctx ms) uid = Some p \<and>
                 user_profiles (updates lw ctx (ms @ ms')) uid = Some p' \<longrightarrow>
                 interaction_count p \<le> interaction_count p' \<and>
                 tier_rank (relationship_level p) \<le> tier_rank (relationship_level p'))"
proof -
  note t = updates_tracked [OF assms, of ms lw]
  note t' = updates_tracked [OF assms, of "ms @ ms'" lw]
  have le: "author_count uid ms \<le> author_count uid (ms @ ms')"
    using author_count_nonneg [of uid ms'] by (simp add: author_count_append)
  have a: "author_count uid ms = 0 \<longrightarrow> user_profiles (updates lw ctx ms) uid = None"
    using t by simp
  have b: "0 < author_count uid ms \<longrightarrow>
            (\<exists>p. user_profiles (updates lw ctx ms) uid = Some p \<and>
                 interaction_count p = author_count uid ms \<and>
                 relationship_level p = tier_of_count (interaction_count p))"
    using t by auto
  have c: "\<forall>p p'. user_profiles (updates lw ctx ms) uid = Some p \<and>
                 user_profiles (updates lw ctx (ms @ ms')) uid = Some p' \<longrightarrow>
                 interaction_count p \<le> interaction_count p' \<and>
                 tier_rank (relationship_level p) \<le> tier_rank (relationship_level p')"
  proof (intro allI impI)
    fix p p'
    assume h: "user_profiles (updates lw ctx ms) uid = Some p \<and>
                 user_profiles (updates lw ctx (ms @ ms')) uid = Some p'"
    then have nz: "author_count uid ms \<noteq> 0" using t by auto
    then have nz': "author_count uid (ms @ ms') \<noteq> 0"
      using le author_count_nonneg [of uid ms] by linarith
    from h nz t have p: "interaction_count p = author_count uid ms"
      "relationship_level p = tier_of_count (author_count uid ms)" by auto
    from h nz' t' have p': "interaction_count p' = author_count uid (ms @ ms')"
      "relationship_level p' = tier_of_count (author_count uid (ms @ ms'))" by auto
    show "interaction_count p \<le> interaction_count p' \<and>
                 tier_rank (relationship_level p) \<le> tier_rank (relationship_level p')"
      using p p' le tier_rank_mono [OF le] by simp
  qed
  from a b c show ?thesis by blast
qed


text \<open>Six updates from the author 7 on a new manager: the counter is 6, the level \<open>znakomyj\<close>.\<close>

theorem relationship_level_band_witness:
  "user_profiles (empty_manager 250) 7 = None \<and>
   (\<exists>p. user_profiles (updates lower_basic (empty_manager 250)
             [plain_message 7 kruto 1 1, plain_message 7 kruto 2 2, plain_message 7 kruto 3 3,
              plain_message 7 kruto 4 4, plain_message 7 kruto 5 5, plain_message 7 kruto 6 6]) 7
          = Some p \<and>
        interaction_count p = 6 \<and> relationship_level p = znakomyj)"
proof -
  let ?ms = "[plain_message 7 kruto 1 1, plain_message 7 kruto 2 2, plain_message 7 kruto 3 3,
              plain_message 7 kruto 4 4, plain_message 7 kruto 5 5, plain_message 7 kruto 6 6]"
  have none: "user_profiles (empty_manager 250) 7 = None"
    by (simp add: empty_manager_def)
  have n: "author_count 7 ?ms = 6"
    by (simp add: author_count_def plain_message_def)
  have t: "tier_of_count 6 = znakomyj"
    by (simp add: tier_of_count_def)
  from relationship_level_band [OF none, of ?ms lower_basic "[]"] n t none show ?thesis
    by auto
qed

section \<open>Two friendly messages of a new author\<close>

text \<open>
  Claim C9. Two messages of the same author, who has no profile before the first, are added
  with \<open>add_message\<close>; the text of each matches a positive keyword and no negative keyword.
  Afterwards the author's friendliness trait is the initial value of a new profile plus 0.2,
  the interaction counter is 2 and the relationship level is \<open>neznakomets\<close> (stranger).
\<close>

theorem two_positive_events:
  assumes "user_profiles ctx (user_id m1) = None" and "user_id m2 = user_id m1"
    and "0 < pos_count lw (msg_text m1)" and "neg_count lw (msg_text m1) = 0"
    and "0 < pos_count lw (msg_text m2)" and "neg_count lw (msg_text m2) = 0"
  shows "\<exists>p. user_profiles (add_message lw enc (add_message lw enc ctx m1) m2) (user_id m1) = Some p \<and>
             friendliness (personality_traits p)
               = friendliness (personality_traits (new_profile m1)) + 0.2 \<and>
             interaction_count p = 2 \<and>
             relationship_level p = neznakomets"
proof -
  have s1: "analyze_sentiment lw (msg_text m1) = S ''positive''"
    and s2: "analyze_sentiment lw (msg_text m2) = S ''positive''"
    using assms by (simp_all add: analyze_sentiment_def)
  show ?thesis
    using assms(1,2) s1 s2
    by (simp add: add_message_profiles updated_profile_count updated_profile_level
        updated_profile_friendliness new_profile_def)
qed


text \<open>\<open>Kruto!\<close> and then \<open>spasibo\<close> from the author 7 on a new manager.\<close>

theorem two_positive_events_witness:
  "user_profiles (empty_manager 250) (user_id (plain_message 7 kruto 1 1)) = None \<and>
   0 < pos_count lower_basic kruto \<and> neg_count lower_basic kruto = 0 \<and>
   0 < pos_count lower_basic spasibo \<and> neg_count lower_basic spasibo = 0 \<and>
   (\<exists>p. user_profiles
          (add_message lower_basic length_enc
             (add_message lower_basic length_enc (empty_manager 250) (plain_message 7 kruto 1 1))
             (plain_message 7 spasibo 2 2)) 7 = Some p \<and>
        friendliness (personality_traits p) = 0.7 \<and>
        interaction_count p = 2 \<and>
        relationship_level p = neznakomets)"
proof -
  let ?m1 = "plain_message 7 kruto 1 1" and ?m2 = "plain_message 7 spasibo 2 2"
  have none: "user_profiles (empty_manager 250) (user_id ?m1) = None"
    by (simp add: empty_manager_def)
  have same: "user_id ?m2 = user_id ?m1"
    by (simp add: plain_message_def)
  have counts: "0 < pos_count lower_basic (msg_text ?m1)" "neg_count lower_basic (msg_text ?m1) = 0"
    "0 < pos_count lower_basic (msg_text ?m2)" "neg_count lower_basic (msg_text ?m2) = 0"
    by (simp_all add: plain_message_def kruto_def spasibo_def pos_count_def neg_count_def
        count_in_def positive_words_def negative_words_def lower_basic_def lower_cp_def)
  have init: "friendliness (personality_traits (new_profile ?m1)) = 0.5"
    by (simp add: new_profile_def)
  have uid: "user_id ?m1 = 7" "msg_text ?m1 = kruto" "msg_text ?m2 = spasibo"
    by (simp_all add: plain_message_def)
  from two_positive_events [OF none same counts, of length_enc] none counts init uid
  show ?thesis
    by auto
qed

section \<open>The vector index is bounded and filters by similarity\<close>




section \<open>The retention sweep\<close>

text \<open>
  Claim C6, as amended. \<open>cleanup_old_messages\<close> deletes exactly the saved messages whose
  timestamp is below the cutoff \<open>now - days * 86400\<close>: the rows that stay are the rows at or
  above the cutoff, unchanged and in their order, and the profile table is untouched. The
  number of deleted rows is written to the log; the value returned to the caller is
  \<open>None\<close>.
\<close>

theorem cleanup_old_messages_effect:
  assumes "cleanup_old_messages now days d = (d1, logged, returned)"
  shows "messages_table d1 =
           filter (\<lambda>r. now - real_of_int days * 86400 \<le> timestamp (row_message r)) (messages_table d) \<and>
         user_profiles_table d1 = user_profiles_table d \<and>
         logged = [Deleted_old_messages
                    (int (length (filter (\<lambda>r. timestamp (row_message r) < now - real_of_int days * 86400)
                                    (messages_table d))))] \<and>
         int (length (messages_table d)) - int (length (messages_table d1)) = 
            int (length (filter (\<lambda>r. timestamp (row_message r) < now - real_of_int days * 86400)
                                    (messages_table d))) \<and>
         returned = PyNone"
proof -
  have c: "real_of_int (days * 24 * 3600) = real_of_int days * 86400" by simp
  have len: "length (messages_table d) = length (filter (\<lambda>r. timestamp (row_message r) < now - real_of_int days * 86400) (messages_table d))
      + length (filter (\<lambda>r. \<not> timestamp (row_message r) < now - real_of_int days * 86400) (messages_table d))"
    by (rule sum_length_filter_compl [symmetric])
  from assms show ?thesis
    unfolding cleanup_old_messages_def Let_def c using len
    by (auto simp add: not_less)
qed


text \<open>The store with a message 31 days old and a message one day old, swept with a horizon
  of 30 days: only the younger row stays.\<close>

theorem cleanup_old_messages_effect_witness:
  "cleanup_old_messages 8640000 30 store_two =
     (store_two\<lparr>messages_table :=
        [\<lparr>row_message = plain_message 7 (S ''new'') 8553600 2, row_embedding = None\<rparr>]\<rparr>,
      [Deleted_old_messages 1], PyNone) \<and>
   messages_table (store_two\<lparr>messages_table :=
        [\<lparr>row_message = plain_message 7 (S ''new'') 8553600 2, row_embedding = None\<rparr>]\<rparr>) =
     filter (\<lambda>r. 8640000 - real_of_int 30 * 86400 \<le> timestamp (row_message r))
       (messages_table store_two)"
proof -
  have run: "cleanup_old_messages 8640000 30 store_two =
     (store_two\<lparr>messages_table :=
        [\<lparr>row_message = plain_message 7 (S ''new'') 8553600 2, row_embedding = None\<rparr>]\<rparr>,
      [Deleted_old_messages 1], PyNone)"
    by (simp add: cleanup_old_messages_def store_two_def plain_message_def Let_def)
  from cleanup_old_messages_effect [OF run] run show ?thesis
    by simp
qed

text \<open>
  Claim C6 as it is written says that the count of deleted rows is returned to the caller.
  On the store above one row is deleted, and the value returned is \<open>None\<close>, not 1.
\<close>

theorem cleanup_old_messages_returns_none:
  "length (messages_table store_two)
     - length (messages_table (fst (cleanup_old_messages 8640000 30 store_two))) = 1 \<and>
   snd (snd (cleanup_old_messages 8640000 30 store_two)) \<noteq> PyInt 1"
  by (simp add: cleanup_old_messages_def store_two_def plain_message_def Let_def)

section \<open>Facts about the inference call\<close>

lemma ask_local_model_Inr: "\<exists>reply. ask_local_model outcome = Inr reply"
  by (simp add: ask_local_model_def split: sum.split py_exn.split)












lemma and_then_Inl: "and_then r f = Inl e \<longleftrightarrow> r = Inl e \<or> (\<exists>x. r = Inr x \<and> f x = Inl e)"
  by (cases r) (simp_all add: and_then_def)

















section \<open>The inference call always returns a reply\<close>




section \<open>Facts about the announcer\<close>

lemma weekday_ordinal: "ordinal a = ordinal b \<Longrightarrow> weekday a = weekday b"
  by (simp add: weekday_def)

lemma generate_morning_greeting_workday:
  assumes "weekday now < 5"
  shows "\<exists>reply. generate_morning_greeting now outcome sch
           = Inr (reply, sch\<lparr>last_greeting_date := Some (ordinal now)\<rparr>)"
proof -
  obtain reply where "ask_local_model outcome = Inr reply"
    using ask_local_model_Inr by blast
  moreover from assms have "weekday now = 4 \<or> weekday now < 4" by linarith
  ultimately show ?thesis
    by (auto simp add: generate_morning_greeting_def date_of_def Let_def)
qed

lemma generate_evening_farewell_returns:
  "\<exists>reply. generate_evening_farewell now outcome sch
           = Inr (reply, sch\<lparr>last_farewell_date := Some (ordinal now)\<rparr>)"
proof -
  obtain reply where "ask_local_model outcome = Inr reply"
    using ask_local_model_Inr by blast
  then show ?thesis
    by (simp add: generate_evening_farewell_def date_of_def Let_def)
qed

lemma should_send_greeting_iff:
  "should_send_greeting now sch \<longleftrightarrow>
     weekday now < 5 \<and> 8 \<le> hour now \<and> hour now < 9 \<and> last_greeting_date sch \<noteq> Some (ordinal now)"
  by (auto simp add: should_send_greeting_def WEEKEND_START_def MORNING_HOUR_START_def
      MORNING_HOUR_END_def date_of_def)

lemma should_send_farewell_iff:
  "should_send_farewell now sch \<longleftrightarrow>
     weekday now < 5 \<and> 17 \<le> hour now \<and> hour now < 18 \<and> last_farewell_date sch \<noteq> Some (ordinal now)"
  by (auto simp add: should_send_farewell_def WEEKEND_START_def EVENING_HOUR_START_def
      EVENING_HOUR_END_def date_of_def)

lemma greeting_step_idle:
  "\<not> should_send_greeting (greeting_check_now tk) sch \<Longrightarrow> greeting_step tk sch = (sch, [], None)"
  by (simp add: greeting_step_def)

lemma greeting_step_fires:
  assumes "should_send_greeting (greeting_check_now tk) sch"
    and "ordinal (greeting_now tk) = ordinal (greeting_check_now tk)"
  shows "\<exists>ev ex. greeting_step tk sch
            = (sch\<lparr>last_greeting_date := Some (ordinal (greeting_check_now tk))\<rparr>,
               Announcing Morning # ev, ex) \<and>
           count_list ev (Announcing Morning) = 0 \<and> count_list ev (Announcing Evening) = 0"
proof -
  from assms have "weekday (greeting_now tk) < 5"
    using weekday_ordinal [OF assms(2)] by (simp add: should_send_greeting_iff)
  from generate_morning_greeting_workday [OF this, of "greeting_outcome tk" sch] assms
  show ?thesis
    by (cases "greeting_send tk") (auto simp add: greeting_step_def)
qed

lemma farewell_step_idle:
  "\<not> should_send_farewell (farewell_check_now tk) sch \<Longrightarrow> farewell_step tk sch = (sch, [], None)"
  by (simp add: farewell_step_def)

lemma farewell_step_fires:
  assumes "should_send_farewell (farewell_check_now tk) sch"
    and "ordinal (farewell_now tk) = ordinal (farewell_check_now tk)"
  shows "\<exists>ev ex. farewell_step tk sch
            = (sch\<lparr>last_farewell_date := Some (ordinal (farewell_check_now tk))\<rparr>,
               Announcing Evening # ev, ex) \<and>
           count_list ev (Announcing Morning) = 0 \<and> count_list ev (Announcing Evening) = 0"
  using generate_evening_farewell_returns [of "farewell_now tk" "farewell_outcome tk" sch] assms
  by (cases "farewell_send tk") (auto simp add: farewell_step_def)

lemma greeting_step_summary:
  assumes "ordinal (greeting_check_now tk) = d" and "ordinal (greeting_now tk) = d"
    and "greeting_step tk sch = (sch1, ev, ex)"
  shows "count_list ev (Announcing Evening) = 0 \<and>
         last_farewell_date sch1 = last_farewell_date sch \<and>
         (if should_send_greeting (greeting_check_now tk) sch
          then count_list ev (Announcing Morning) = 1 \<and> last_greeting_date sch1 = Some d
          else count_list ev (Announcing Morning) = 0 \<and> sch1 = sch)"
proof (cases "should_send_greeting (greeting_check_now tk) sch")
  case True
  from greeting_step_fires [OF True] assms show ?thesis
    using True by auto
next
  case False
  from greeting_step_idle [OF False] assms(3) show ?thesis
    using False by auto
qed

lemma farewell_step_summary:
  assumes "ordinal (farewell_check_now tk) = d" and "ordinal (farewell_now tk) = d"
    and "farewell_step tk sch = (sch1, ev, ex)"
  shows "count_list ev (Announcing Morning) = 0 \<and>
         last_greeting_date sch1 = last_greeting_date sch \<and>
         (if should_send_farewell (farewell_check_now tk) sch
          then count_list ev (Announcing Evening) = 1 \<and> last_farewell_date sch1 = Some d
          else count_list ev (Announcing Evening) = 0 \<and> sch1 = sch)"
proof (cases "should_send_farewell (farewell_check_now tk) sch")
  case True
  from farewell_step_fires [OF True] assms show ?thesis
    using True by auto
next
  case False
  from farewell_step_idle [OF False] assms(3) show ?thesis
    using False by auto
qed

lemma count_list_error: "count_list (ev @ [Error_logged e]) (Announcing sl) = count_list ev (Announcing sl)"
  by simp

lemma tick_summary:
  assumes "on_day d tk" and "check_scheduled_messages tk (Some sch) = (s', ev)"
  shows "\<exists>sch'. s' = Some sch' \<and>
     (if should_send_greeting (greeting_check_now tk) sch
      then count_list ev (Announcing Morning) = 1 \<and> last_greeting_date sch' = Some d
      else count_list ev (Announcing Morning) = 0 \<and> last_greeting_date sch' = last_greeting_date sch) \<and>
     count_list ev (Announcing Evening) \<le> 1 \<and>
     (last_farewell_date sch = Some d \<longrightarrow> count_list ev (Announcing Evening) = 0) \<and>
     (last_farewell_date sch = Some d \<or> count_list ev (Announcing Evening) = 1
        \<longrightarrow> last_farewell_date sch' = Some d)"
proof -
  from assms(1) have days: "ordinal (greeting_check_now tk) = d" "ordinal (greeting_now tk) = d"
    "ordinal (farewell_check_now tk) = d" "ordinal (farewell_now tk) = d"
    by (simp_all add: on_day_def)
  obtain sch1 ev1 ex1 where g: "greeting_step tk sch = (sch1, ev1, ex1)"
    by (cases "greeting_step tk sch") auto
  note gs = greeting_step_summary [OF days(1,2) g]
  obtain sch2 ev2 ex2 where f: "farewell_step tk sch1 = (sch2, ev2, ex2)"
    by (cases "farewell_step tk sch1") auto
  note fs = farewell_step_summary [OF days(3,4) f]
  show ?thesis
  proof (cases ex1)
    case (Some e)
    with assms(2) g have r: "s' = Some sch1" "ev = ev1 @ [Error_logged e]"
      by (simp_all add: check_scheduled_messages_def)
    with gs show ?thesis
      by (auto split: if_splits)
  next
    case None
    show ?thesis
    proof (cases ex2)
      case (Some e)
      with None assms(2) g f have r: "s' = Some sch2" "ev = ev1 @ ev2 @ [Error_logged e]"
        by (simp_all add: check_scheduled_messages_def)
      with gs fs show ?thesis
        by (auto simp add: should_send_farewell_iff days split: if_splits)
    next
      case n2: None
      with None assms(2) g f have r: "s' = Some sch2" "ev = ev1 @ ev2"
        by (simp_all add: check_scheduled_messages_def)
      with gs fs show ?thesis
        by (auto simp add: should_send_farewell_iff days split: if_splits)
    qed
  qed
qed


lemma tick_counts:
  assumes "on_day d tk" and "check_scheduled_messages tk s = (s', ev)"
  shows "count_list ev (Announcing Morning) \<le> 1 \<and>
         (greeted d s \<longrightarrow> count_list ev (Announcing Morning) = 0) \<and>
         (greeted d s \<or> count_list ev (Announcing Morning) = 1 \<longrightarrow> greeted d s') \<and>
         count_list ev (Announcing Evening) \<le> 1 \<and>
         (parted d s \<longrightarrow> count_list ev (Announcing Evening) = 0) \<and>
         (parted d s \<or> count_list ev (Announcing Evening) = 1 \<longrightarrow> parted d s')"
proof (cases s)
  case None
  with assms(2) show ?thesis
    by (simp add: check_scheduled_messages_def greeted_def parted_def)
next
  case (Some sch)
  from assms(1) have day: "ordinal (greeting_check_now tk) = d"
    by (simp add: on_day_def)
  from tick_summary [OF assms(1) assms(2) [unfolded Some]] obtain sch' where
    s': "s' = Some sch'" and
    m: "if should_send_greeting (greeting_check_now tk) sch
      then count_list ev (Announcing Morning) = 1 \<and> last_greeting_date sch' = Some d
      else count_list ev (Announcing Morning) = 0 \<and> last_greeting_date sch' = last_greeting_date sch"
    and e: "count_list ev (Announcing Evening) \<le> 1"
     "last_farewell_date sch = Some d \<longrightarrow> count_list ev (Announcing Evening) = 0"
     "last_farewell_date sch = Some d \<or> count_list ev (Announcing Evening) = 1
        \<longrightarrow> last_farewell_date sch' = Some d"
    by blast
  have m1: "count_list ev (Announcing Morning) \<le> 1"
    using m by (simp split: if_splits)
  have m2: "last_greeting_date sch = Some d \<longrightarrow> count_list ev (Announcing Morning) = 0"
    using m day by (simp add: should_send_greeting_iff split: if_splits)
  have m3: "last_greeting_date sch = Some d \<or> count_list ev (Announcing Morning) = 1
        \<longrightarrow> last_greeting_date sch' = Some d"
    using m by (auto split: if_splits)
  from m1 m2 m3 e show ?thesis
    by (simp add: Some s' greeted_def parted_def)
qed

lemma run_ticks_counts:
  assumes "list_all (on_day d) tks" and "run_ticks s tks = (s', evs)"
  shows "count_list evs (Announcing Morning) \<le> 1 \<and>
         (greeted d s \<longrightarrow> count_list evs (Announcing Morning) = 0) \<and>
         (greeted d s \<or> count_list evs (Announcing Morning) = 1 \<longrightarrow> greeted d s') \<and>
         count_list evs (Announcing Evening) \<le> 1 \<and>
         (parted d s \<longrightarrow> count_list evs (Announcing Evening) = 0) \<and>
         (parted d s \<or> count_list evs (Announcing Evening) = 1 \<longrightarrow> parted d s')"
  using assms
proof (induction tks arbitrary: s s' evs)
  case Nil
  then show ?case by auto
next
  case (Cons tk tks)
  obtain s1 ev where t: "check_scheduled_messages tk s = (s1, ev)"
    by (cases "check_scheduled_messages tk s") auto
  obtain s2 evs2 where r: "run_ticks s1 tks = (s2, evs2)"
    by (cases "run_ticks s1 tks") auto
  from Cons.prems(2) t r have res: "s' = s2" "evs = ev @ evs2"
    by simp_all
  from Cons.prems(1) have day: "on_day d tk" and rest: "list_all (on_day d) tks"
    by simp_all
  note a = tick_counts [OF day t]
  note b = Cons.IH [OF rest r]
  have m: "count_list evs (Announcing Morning) \<le> 1 \<and>
         (greeted d s \<longrightarrow> count_list evs (Announcing Morning) = 0) \<and>
         (greeted d s \<or> count_list evs (Announcing Morning) = 1 \<longrightarrow> greeted d s')"
    using a b unfolding res by (simp only: count_list_append) linarith
  have e: "count_list evs (Announcing Evening) \<le> 1 \<and>
         (parted d s \<longrightarrow> count_list evs (Announcing Evening) = 0) \<and>
         (parted d s \<or> count_list evs (Announcing Evening) = 1 \<longrightarrow> parted d s')"
    using a b unfolding res by (simp only: count_list_append) linarith
  from m e show ?case by blast
qed

lemma greeting_step_events:
  assumes "greeting_step tk sch = (sch1, ev, ex)"
  shows "Announcing Evening \<notin> set ev \<and>
         (Announcing Morning \<in> set ev \<longrightarrow> should_send_greeting (greeting_check_now tk) sch)"
  using assms
  by (auto simp add: greeting_step_def split: if_splits sum.splits option.splits prod.splits)

lemma farewell_step_events:
  assumes "farewell_step tk sch = (sch1, ev, ex)"
  shows "Announcing Morning \<notin> set ev \<and>
         (Announcing Evening \<in> set ev \<longrightarrow> should_send_farewell (farewell_check_now tk) sch)"
  using assms
  by (auto simp add: farewell_step_def split: if_splits sum.splits option.splits prod.splits)

lemma tick_window:
  "(Announcing Morning \<in> set (snd (check_scheduled_messages tk s)) \<longrightarrow>
      weekday (greeting_check_now tk) < 5 \<and> 8 \<le> hour (greeting_check_now tk) \<and>
      hour (greeting_check_now tk) < 9) \<and>
   (Announcing Evening \<in> set (snd (check_scheduled_messages tk s)) \<longrightarrow>
      weekday (farewell_check_now tk) < 5 \<and> 17 \<le> hour (farewell_check_now tk) \<and>
      hour (farewell_check_now tk) < 18)"
proof (cases s)
  case None
  then show ?thesis by (simp add: check_scheduled_messages_def)
next
  case (Some sch)
  obtain sch1 ev1 ex1 where g: "greeting_step tk sch = (sch1, ev1, ex1)"
    by (cases "greeting_step tk sch") auto
  obtain sch2 ev2 ex2 where f: "farewell_step tk sch1 = (sch2, ev2, ex2)"
    by (cases "farewell_step tk sch1") auto
  have sub: "set (snd (check_scheduled_messages tk s)) \<subseteq> set ev1 \<union> set ev2 \<union> range Error_logged"
    using g f by (auto simp add: Some check_scheduled_messages_def split: option.splits)
  have noev: "ex1 \<noteq> None \<longrightarrow> set (snd (check_scheduled_messages tk s)) \<subseteq> set ev1 \<union> range Error_logged"
    using g by (auto simp add: Some check_scheduled_messages_def split: option.splits)
  from greeting_step_events [OF g] farewell_step_events [OF f] sub
  have m: "Announcing Morning \<in> set (snd (check_scheduled_messages tk s)) \<longrightarrow>
      should_send_greeting (greeting_check_now tk) sch"
    by auto
  from greeting_step_events [OF g] farewell_step_events [OF f] sub
  have e: "Announcing Evening \<in> set (snd (check_scheduled_messages tk s)) \<longrightarrow>
      should_send_farewell (farewell_check_now tk) sch1"
    by auto
  from m e show ?thesis
    by (simp add: should_send_greeting_iff should_send_farewell_iff)
qed

section \<open>Each slot is announced at most once a day\<close>

text \<open>
  Claim C7. Take any sequence of timer ticks all of whose readings of the clock are on one
  day \<open>d\<close>, from any state of the announcer. The morning slot is announced at most once, and
  so is the evening slot. A slot whose stored date is already \<open>d\<close> is not announced at all,
  and after the one announcement of a slot its stored date is \<open>d\<close>: no later tick of the day
  announces it again. A tick announces the morning slot only when the reading of its test
  is a weekday from Monday to Friday with the hour 8, and the evening slot only on such a
  weekday with the hour 17.
\<close>

theorem announcer_once_a_day:
  assumes "list_all (on_day d) tks"
  shows "count_list (snd (run_ticks scheduler tks)) (Announcing Morning) \<le> 1 \<and>
         count_list (snd (run_ticks scheduler tks)) (Announcing Evening) \<le> 1 \<and>
         (greeted d scheduler \<longrightarrow> count_list (snd (run_ticks scheduler tks)) (Announcing Morning) = 0) \<and>
         (parted d scheduler \<longrightarrow> count_list (snd (run_ticks scheduler tks)) (Announcing Evening) = 0) \<and>
         (count_list (snd (run_ticks scheduler tks)) (Announcing Morning) = 1
            \<longrightarrow> greeted d (fst (run_ticks scheduler tks))) \<and>
         (count_list (snd (run_ticks scheduler tks)) (Announcing Evening) = 1
            \<longrightarrow> parted d (fst (run_ticks scheduler tks))) \<and>
         (\<forall>tk s. Announcing Morning \<in> set (snd (check_scheduled_messages tk s)) \<longrightarrow>
            weekday (greeting_check_now tk) < 5 \<and> 8 \<le> hour (greeting_check_now tk) \<and>
            hour (greeting_check_now tk) < 9) \<and>
         (\<forall>tk s. Announcing Evening \<in> set (snd (check_scheduled_messages tk s)) \<longrightarrow>
            weekday (farewell_check_now tk) < 5 \<and> 17 \<le> hour (farewell_check_now tk) \<and>
            hour (farewell_check_now tk) < 18)"
proof -
  obtain s' evs where r: "run_ticks scheduler tks = (s', evs)"
    by (cases "run_ticks scheduler tks") auto
  from run_ticks_counts [OF assms r] tick_window show ?thesis
    by (simp add: r)
qed

text \<open>Wednesday 4 November 2026 is day 739924. Three ticks at 8:00, 8:05 and 8:55 on a new
  announcer: the first announces the morning slot, the other two do nothing.\<close>

theorem announcer_once_a_day_witness:
  "list_all (on_day 739924) [at_time 739924 8 0, at_time 739924 8 5, at_time 739924 8 55] \<and>
   snd (run_ticks new_scheduler [at_time 739924 8 0, at_time 739924 8 5, at_time 739924 8 55])
     = [Announcing Morning, Sent Morning reply_timeout] \<and>
   count_list (snd (run_ticks new_scheduler
       [at_time 739924 8 0, at_time 739924 8 5, at_time 739924 8 55])) (Announcing Morning) = 1 \<and>
   greeted 739924 (fst (run_ticks new_scheduler
       [at_time 739924 8 0, at_time 739924 8 5, at_time 739924 8 55]))"
proof -
  let ?tks = "[at_time 739924 8 0, at_time 739924 8 5, at_time 739924 8 55]"
  have day: "list_all (on_day 739924) ?tks"
    by (simp add: on_day_def at_time_def)
  have am: "ask_local_model (Raises AsyncioTimeoutError) = Inr reply_timeout"
    by (simp add: ask_local_model_def ask_local_model_try_def)
  have run: "snd (run_ticks new_scheduler ?tks) = [Announcing Morning, Sent Morning reply_timeout]"
    by (simp add: new_scheduler_def at_time_def check_scheduled_messages_def greeting_step_def
        farewell_step_def should_send_greeting_iff should_send_farewell_iff
        generate_morning_greeting_def weekday_def date_of_def am Let_def)
  then have one: "count_list (snd (run_ticks new_scheduler ?tks)) (Announcing Morning) = 1"
    by simp
  from announcer_once_a_day [OF day, of new_scheduler] one
  have "greeted 739924 (fst (run_ticks new_scheduler ?tks))"
    by blast
  with day run one show ?thesis
    by blast
qed

end
